theory Spec2Isabelle
  imports Complex_Main "HOL-Library.AList" "HOL-Library.Char_ord" "HOL-Library.List_Lexorder"
begin

section \<open>Strings and the helpers of the module\<close>

text \<open>
  A Python \<open>str\<close> is a \<^typ>\<open>string\<close>. The three character classes are the ones the
  regular expressions of the source name: \<open>[A-Z]\<close>, \<open>[a-z0-9]\<close> and \<open>[a-zA-Z0-9]\<close>; they
  hold ASCII characters only, so a character outside ASCII belongs to none of them.
\<close>

definition upper :: "char \<Rightarrow> bool" where
  "upper c = (c \<in> set ''ABCDEFGHIJKLMNOPQRSTUVWXYZ'')"

definition lower :: "char \<Rightarrow> bool" where
  "lower c = (c \<in> set ''abcdefghijklmnopqrstuvwxyz'')"

definition digit :: "char \<Rightarrow> bool" where
  "digit c = (c \<in> set ''0123456789'')"

definition alnum :: "char \<Rightarrow> bool" where
  "alnum c = (lower c \<or> upper c \<or> digit c)"

definition lower_or_digit :: "char \<Rightarrow> bool" where
  "lower_or_digit c = (lower c \<or> digit c)"

text \<open>\<open>str.strip()\<close>: leading and trailing white space is dropped (the ASCII white space
  of Python: tab, line feed, vertical tab, form feed, carriage return, the four separators
  0x1c..0x1f and the blank).\<close>

definition isspace :: "char \<Rightarrow> bool" where
  "isspace c = ((of_char c :: nat) \<in> set [9, 10, 11, 12, 13, 28, 29, 30, 31, 32])"

definition strip :: "string \<Rightarrow> string" where
  "strip s = rev (dropWhile isspace (rev (dropWhile isspace s)))"

text \<open>\<open>convert_addon_name\<close>: \<open>re.sub('[^a-zA-Z0-9]', '', name.strip())\<close>.\<close>

definition convert_addon_name :: "string \<Rightarrow> string" where
  "convert_addon_name name = filter alnum (strip name)"

text \<open>\<open>sep.join(xs)\<close>.\<close>

fun join :: "string \<Rightarrow> string list \<Rightarrow> string" where
  "join sep [] = []"
| "join sep [x] = x"
| "join sep (x # y # ys) = x @ sep @ join sep (y # ys)"

text \<open>
  \<open>re.findall(r'[A-Z]{1}[a-z0-9]+', s)\<close>: the matches from left to right, without
  overlap. A match starts at a capital letter that is followed by at least one lower-case
  letter or digit and takes all of them (the \<open>+\<close> is greedy); the search goes on behind
  the match. Where no match starts, the search moves one character on.
\<close>

function findall_capitalized :: "string \<Rightarrow> string list" where
  "findall_capitalized [] = []"
| "findall_capitalized (c # cs) =
     (if upper c \<and> takeWhile lower_or_digit cs \<noteq> []
      then (c # takeWhile lower_or_digit cs) # findall_capitalized (dropWhile lower_or_digit cs)
      else findall_capitalized cs)"
  by pat_completeness auto
termination
  by (relation "measure length") (auto simp: length_dropWhile_le le_imp_less_Suc)

text \<open>
  \<open>AddonSearch._split_by_camel_case\<close> and \<open>AddonSearch._remove_last_word\<close>. The name is
  a \<open>str\<close> (\<open>_search_online\<close> asserts it), so the \<open>TypeError\<close> handlers of the source
  are never entered. \<open>xs[:-1]\<close> is \<^const>\<open>butlast\<close>, also on the empty list.
\<close>

definition split_by_camel_case :: "string \<Rightarrow> string" where
  "split_by_camel_case addon_name = join '' '' (findall_capitalized addon_name)"

definition remove_last_word :: "string \<Rightarrow> string" where
  "remove_last_word addon_name = join '''' (butlast (findall_capitalized addon_name))"

section \<open>Values and errors\<close>

datatype error =
  ValueError | TypeError | AssertionError | AttributeError | NameError | BadZipFile | RequestError

text \<open>The values the release date of an addon arrives as: the \<open>data-epoch\<close> attribute of
  the detail page is a \<open>str\<close> (or \<open>None\<close> when absent), the \<open>date\<close> of a stored record is
  an \<open>int\<close>.\<close>

datatype pyval = PyNone | PyInt int | PyStr string

fun truthy :: "pyval \<Rightarrow> bool" where
  "truthy PyNone = False"
| "truthy (PyInt i) = (i \<noteq> 0)"
| "truthy (PyStr s) = (s \<noteq> [])"

text \<open>
  \<open>int(s)\<close> of a \<open>str\<close>: white space around the literal is dropped, a sign may lead,
  and the decimal digits may be grouped by single underscores. The digits and the white
  space are the ASCII ones; a text that is no such literal raises \<open>ValueError\<close>.
\<close>

definition digit_val :: "char \<Rightarrow> nat" where
  "digit_val c = of_char c - 48"

fun parse_digits :: "string \<Rightarrow> nat \<Rightarrow> nat option" where
  "parse_digits [] acc = Some acc"
| "parse_digits [c] acc = (if digit c then Some (10 * acc + digit_val c) else None)"
| "parse_digits (c # d # ds) acc =
     (if digit c then parse_digits (d # ds) (10 * acc + digit_val c)
      else if c = CHR ''_'' \<and> digit d then parse_digits ds (10 * acc + digit_val d)
      else None)"

definition parse_nat :: "string \<Rightarrow> nat option" where
  "parse_nat s = (case s of [] \<Rightarrow> None
     | c # cs \<Rightarrow> if digit c then parse_digits cs (digit_val c) else None)"

definition int_of_str :: "string \<Rightarrow> int option" where
  "int_of_str s =
     (case strip s of
        [] \<Rightarrow> None
      | c # cs \<Rightarrow>
          if c = CHR ''-'' then map_option (\<lambda>n. - int n) (parse_nat cs)
          else if c = CHR ''+'' then map_option int (parse_nat cs)
          else map_option int (parse_nat (c # cs)))"

fun py_int :: "pyval \<Rightarrow> error + int" where
  "py_int PyNone = Inl TypeError"
| "py_int (PyInt i) = Inr i"
| "py_int (PyStr s) = (case int_of_str s of None \<Rightarrow> Inl ValueError | Some i \<Rightarrow> Inr i)"

section \<open>Addon\<close>

text \<open>The object \<open>Addon.__init__\<close> builds; the fields carry the names of their getters.\<close>

record addon =
  get_name :: string
  get_url :: string
  get_full_url :: string
  get_date :: int

definition ADDON_DL_SUFFIX :: string where
  "ADDON_DL_SUFFIX = ''/files/latest''"

text \<open>\<open>re.match(r'[a-zA-Z0-9]+', s)\<close> matches at the start of \<open>s\<close>.\<close>

fun match_alnum :: "string \<Rightarrow> bool" where
  "match_alnum [] = False"
| "match_alnum (c # cs) = alnum c"

definition Addon_init :: "string \<Rightarrow> string \<Rightarrow> pyval \<Rightarrow> error + addon" where
  "Addon_init name url epoch_date =
     (if \<not> (name \<noteq> [] \<and> url \<noteq> [] \<and> truthy epoch_date) then Inl ValueError
      else if \<not> match_alnum (convert_addon_name name) then Inl AssertionError
      else case py_int epoch_date of
             Inl e \<Rightarrow> Inl e
           | Inr d \<Rightarrow> Inr \<lparr>get_name = convert_addon_name name, get_url = url,
                          get_full_url = url @ ADDON_DL_SUFFIX, get_date = d\<rparr>)"

text \<open>\<open>Addon.to_json\<close>: the dictionary with the keys \<open>name\<close>, \<open>url\<close> and \<open>date\<close>.\<close>

record addon_json =
  json_name :: string
  json_url :: string
  json_date :: int

definition to_json :: "addon \<Rightarrow> addon_json" where
  "to_json a = \<lparr>json_name = get_name a, json_url = get_url a, json_date = get_date a\<rparr>"

text \<open>\<open>JsonAddon.__init__\<close>; \<open>None\<close> is what \<open>dict.get\<close> gives for a missing key.\<close>

definition JsonAddon_init :: "addon_json option \<Rightarrow> error + addon" where
  "JsonAddon_init json_dict =
     (case json_dict of
        None \<Rightarrow> Inl ValueError
      | Some j \<Rightarrow> Addon_init (json_name j) (json_url j) (PyInt (json_date j)))"

section \<open>Config\<close>

text \<open>
  A Python dictionary with \<open>str\<close> keys is an association list in insertion order:
  \<open>d[k] = v\<close> is \<^const>\<open>AList.update\<close> (an old key keeps its place, a new one goes to the
  end) and \<open>d.get(k)\<close> is \<^const>\<open>map_of\<close>. The document of the config file has the two
  sections \<open>config\<close> and \<open>addons\<close> that \<open>Config._default\<close> creates.
\<close>

record config_dict =
  config_section :: "(string \<times> string) list"
  addons_section :: "(string \<times> addon_json) list"

text \<open>A queued task is \<open>Message(current_addon=..., online_addon=...)\<close>; the other
  messages carry a text under \<open>msg\<close>.\<close>

record task =
  current_addon :: string
  online_addon :: addon

text \<open>
  What the scraping of a response yields. \<open>no_results_text\<close>: the text of the
  \<open>li.no-results\<close> items holds \<open>No results for\<close>. \<open>first_link\<close>: the text and the
  \<open>href\<close> attribute of the first link in the \<open>tr.wildstar\<close> rows. \<open>last_released\<close>: the
  first item of \<open>ul.cf-details\<close> whose text holds \<open>Last Released File\<close>, as the value of
  the \<open>data-epoch\<close> attribute of its \<open>abbr\<close> element. \<open>content\<close>: the members of the body
  when it is a zip archive.
\<close>

datatype released = NoItem | NoAbbr | DataEpoch "string option"

record response =
  no_results_text :: bool
  first_link :: "(string \<times> string option) option"
  last_released :: released
  content :: "(string \<times> string) list option"

text \<open>A request is the URL and the \<open>search\<close> parameter, if any. \<open>requests.get\<close> with
  \<open>raise_for_status\<close> ends in a response, a timeout or another request exception.\<close>

type_synonym request = "string \<times> string option"

datatype outcome = Response response | Timeout | RequestException

text \<open>
  The surroundings of a run: \<open>net\<close> answers a request, given how many requests were made
  before it; \<open>set_iter\<close> is the order in which Python iterates over the set built from the
  listed elements; \<open>urljoin\<close> is \<open>urllib.parse.urljoin\<close>.
\<close>

record env =
  net :: "nat \<Rightarrow> request \<Rightarrow> outcome"
  set_iter :: "string list \<Rightarrow> string list"
  urljoin :: "string \<Rightarrow> string \<Rightarrow> string"

text \<open>
  The state: the three queues of \<open>MultiQueue\<close>, the two caches of \<open>AddonSearch\<close>, the
  dictionary of a \<open>Config\<close>, and what lies outside the process: the document in the config
  file (\<open>None\<close> when the file is missing or is not JSON) with the number of writes to it,
  the requests sent, \<open>errors.log\<close>, the standard output and the files of the addon
  directory.
\<close>

record state =
  task_queue :: "task list"
  message_queue :: "string list"
  warning_queue :: "string list"
  no_results_found :: "string \<rightharpoonup> bool"
  retrieved_addons :: "string \<rightharpoonup> addon"
  config_dict :: config_dict
  config_file :: "config_dict option"
  writes :: nat
  requests :: "request list"
  errors_log :: "error list"
  stdout :: "string list"
  addon_directory :: "(string \<times> string) list"

text \<open>A call that may raise returns the error with the state at the raise, or its value
  with the state after it.\<close>

type_synonym 'a result = "(error \<times> state) + ('a \<times> state)"

definition put_task :: "task \<Rightarrow> state \<Rightarrow> state" where
  "put_task t s = s\<lparr>task_queue := task_queue s @ [t]\<rparr>"

definition put_message :: "string \<Rightarrow> state \<Rightarrow> state" where
  "put_message m s = s\<lparr>message_queue := message_queue s @ [m]\<rparr>"

definition put_warning :: "string \<Rightarrow> state \<Rightarrow> state" where
  "put_warning m s = s\<lparr>warning_queue := warning_queue s @ [m]\<rparr>"

definition default_dict :: config_dict where
  "default_dict = \<lparr>config_section = [], addons_section = []\<rparr>"

text \<open>
  \<open>Config._formatted_json\<close> writes with \<open>sort_keys=True\<close>. The file is kept as the
  document \<open>json.loads\<close> reads back from that text: the same keys and values, the keys
  of each section in sorted order.
\<close>

definition formatted_json :: "config_dict \<Rightarrow> config_dict" where
  "formatted_json d =
     \<lparr>config_section = sort_key fst (config_section d),
      addons_section = sort_key fst (addons_section d)\<rparr>"


definition encode :: "state \<Rightarrow> state" where
  "encode s = s\<lparr>config_file := Some (formatted_json (config_dict s)), writes := Suc (writes s)\<rparr>"


text \<open>\<open>Config.get_addon\<close> turns a \<open>ValueError\<close> into \<open>None\<close>; another error goes on.\<close>

definition get_addon :: "state \<Rightarrow> string \<Rightarrow> error + addon option" where
  "get_addon s name =
     (case JsonAddon_init (map_of (addons_section (config_dict s)) name) of
        Inl e \<Rightarrow> if e = ValueError then Inr None else Inl e
      | Inr a \<Rightarrow> Inr (Some a))"



definition update_addon :: "addon \<Rightarrow> state \<Rightarrow> state" where
  "update_addon a s =
     encode (s\<lparr>config_dict := (config_dict s)\<lparr>addons_section :=
       AList.update (get_name a) (to_json a) (addons_section (config_dict s))\<rparr>\<rparr>)"

text \<open>\<open>Config.add_addons\<close> of a list (of a dictionary, its values): every addon is
  updated, then the file is written once more.\<close>

definition add_addons :: "addon list \<Rightarrow> state \<Rightarrow> state" where
  "add_addons as s = encode (fold update_addon as s)"

definition get_directory :: "state \<Rightarrow> string" where
  "get_directory s =
     (case map_of (config_section (config_dict s)) ''PATH'' of None \<Rightarrow> [] | Some p \<Rightarrow> p)"

definition update_directory :: "string \<Rightarrow> state \<Rightarrow> state" where
  "update_directory directory s =
     (if directory \<noteq> []
      then encode (s\<lparr>config_dict := (config_dict s)\<lparr>config_section :=
             AList.update ''PATH'' directory (config_section (config_dict s))\<rparr>\<rparr>)
      else s)"

section \<open>Requests\<close>

text \<open>
  \<open>http_request\<close>: the response, or \<open>None\<close> after a timeout (a line is printed) or
  another request exception (the error is appended to \<open>errors.log\<close>).
\<close>

definition http_request :: "env \<Rightarrow> request \<Rightarrow> state \<Rightarrow> response option \<times> state" where
  "http_request e rq s =
     (let s1 = s\<lparr>requests := requests s @ [rq]\<rparr> in
      case net e (length (requests s)) rq of
        Response r \<Rightarrow> (Some r, s1)
      | Timeout \<Rightarrow> (None, s1\<lparr>stdout := stdout s1 @ [''Connection timed out.'']\<rparr>)
      | RequestException \<Rightarrow> (None, s1\<lparr>errors_log := errors_log s1 @ [RequestError]\<rparr>))"

section \<open>AddonSearch\<close>

definition BASE_CURSE_URL :: string where
  "BASE_CURSE_URL = ''http://www.curse.com/search/ws-addons''"

definition BASE_URL_CURSEFORGE :: string where
  "BASE_URL_CURSEFORGE = ''http://wildstar.curseforge.com/''"


definition quoted :: "string \<Rightarrow> string" where
  "quoted s = [CHR 0x27] @ s @ [CHR 0x27]"

definition no_results_found_with :: "string \<Rightarrow> state \<Rightarrow> state" where
  "no_results_found_with addon_name s =
     s\<lparr>no_results_found := (no_results_found s)(addon_name \<mapsto> True)\<rparr>"

text \<open>\<open>_results_found_on\<close>: reading \<open>page.text\<close> of \<open>None\<close> raises \<open>AttributeError\<close>, which
  the handler turns into \<open>True\<close>.\<close>

definition results_found_on :: "response option \<Rightarrow> bool" where
  "results_found_on page = (case page of None \<Rightarrow> True | Some r \<Rightarrow> \<not> no_results_text r)"

text \<open>
  The loop of \<open>_search_request\<close> over the search terms. The body of \<open>if search_term:\<close>
  ends in a \<open>return\<close> on both branches, so the loop goes on only behind an empty term;
  \<open>_no_results_found_with\<close> returns \<open>None\<close>.
\<close>

fun search_terms :: "env \<Rightarrow> string \<Rightarrow> string list \<Rightarrow> state \<Rightarrow> response option \<times> state" where
  "search_terms e addon_name [] s = (None, s)"
| "search_terms e addon_name (search_term # rest) s =
     (if search_term \<noteq> []
      then (case http_request e (BASE_CURSE_URL, Some search_term) s of
              (page, s1) \<Rightarrow>
                if results_found_on page then (page, s1)
                else (None, no_results_found_with addon_name s1))
      else search_terms e addon_name rest s)"

definition search_request :: "env \<Rightarrow> string \<Rightarrow> state \<Rightarrow> response option \<times> state" where
  "search_request e addon_name s =
     search_terms e addon_name
       (set_iter e [addon_name, split_by_camel_case addon_name, remove_last_word addon_name]) s"

text \<open>\<open>_remove_page\<close>: \<open>url.replace('/wildstar/', '/')\<close>, every occurrence from the left.\<close>

function remove_page :: "string \<Rightarrow> string" where
  "remove_page [] = []"
| "remove_page (c # cs) =
     (if take 10 (c # cs) = ''/wildstar/'' then CHR ''/'' # remove_page (drop 9 cs)
      else c # remove_page cs)"
  by pat_completeness auto
termination
  by (relation "measure length") auto

definition make_full_url_from :: "env \<Rightarrow> string \<Rightarrow> string" where
  "make_full_url_from e partial_url = urljoin e BASE_URL_CURSEFORGE (remove_page partial_url)"

text \<open>\<open>_find_addon_date\<close>: \<open>tag.find('abbr')\<close> is \<open>None\<close> when the item has no such
  element, and \<open>.get\<close> of it raises \<open>AttributeError\<close>.\<close>

definition find_addon_date :: "env \<Rightarrow> string \<Rightarrow> state \<Rightarrow> (string option) result" where
  "find_addon_date e url s =
     (case http_request e (url, None) s of
        (None, s1) \<Rightarrow> Inr (None, s1)
      | (Some page, s1) \<Rightarrow>
          (case last_released page of
             NoItem \<Rightarrow> Inr (None, s1)
           | NoAbbr \<Rightarrow> Inl (AttributeError, s1)
           | DataEpoch v \<Rightarrow> Inr (v, s1)))"

text \<open>\<open>_find_addon_info_on\<close>: the name, the URL and the date of the first link; a link
  without \<open>href\<close> makes \<open>_remove_page\<close> raise \<open>AttributeError\<close>.\<close>

definition find_addon_info_on ::
  "env \<Rightarrow> response \<Rightarrow> state \<Rightarrow> (string option \<times> string option \<times> string option) result" where
  "find_addon_info_on e page s =
     (case first_link page of
        None \<Rightarrow> Inr ((None, None, None), s)
      | Some (text, href) \<Rightarrow>
          (case href of
             None \<Rightarrow> Inl (AttributeError, s)
           | Some h \<Rightarrow>
               (case find_addon_date e (make_full_url_from e h) s of
                  Inl err \<Rightarrow> Inl err
                | Inr (date, s1) \<Rightarrow>
                    Inr ((Some (convert_addon_name text), Some (make_full_url_from e h), date), s1))))"

text \<open>The end of \<open>_search_online\<close>, reached when the page or one of the name, the URL
  and the date is not truthy: the name goes to the negative cache, a warning is
  queued and \<open>None\<close> is returned.\<close>

definition not_found :: "string \<Rightarrow> state \<Rightarrow> (addon option) result" where
  "not_found addon_name s =
     Inr (None, put_warning (''Unable to find '' @ quoted addon_name @ '' on Curse.'')
                  (no_results_found_with addon_name s))"

definition search_online :: "env \<Rightarrow> string \<Rightarrow> state \<Rightarrow> (addon option) result" where
  "search_online e addon_name s =
     (case search_request e addon_name s of
        (None, s1) \<Rightarrow> not_found addon_name s1
      | (Some page, s1) \<Rightarrow>
          (case find_addon_info_on e page s1 of
             Inl err \<Rightarrow> Inl err
           | Inr ((Some name, Some url, Some date), s2) \<Rightarrow>
               if name \<noteq> [] \<and> url \<noteq> [] \<and> date \<noteq> []
               then (case Addon_init name url (PyStr date) of
                       Inl err \<Rightarrow> Inl (err, s2)
                     | Inr addon \<Rightarrow>
                         Inr (Some addon,
                              s2\<lparr>retrieved_addons := (retrieved_addons s2)(name \<mapsto> addon)\<rparr>))
               else not_found addon_name s2
           | Inr (_, s2) \<Rightarrow> not_found addon_name s2))"

text \<open>\<open>AddonSearch.find\<close>.\<close>

definition AddonSearch_find :: "env \<Rightarrow> string \<Rightarrow> state \<Rightarrow> (addon option) result" where
  "AddonSearch_find e addon_name s =
     (if no_results_found s addon_name = Some True then Inr (None, s)
      else case retrieved_addons s addon_name of
             Some addon \<Rightarrow> Inr (Some addon, s)
           | None \<Rightarrow> search_online e addon_name s)"

text \<open>\<open>AddonSearch.run\<close>: the loop over the addons, behind the opening message.\<close>

fun search_addons :: "env \<Rightarrow> string list \<Rightarrow> state \<Rightarrow> (error \<times> state) + state" where
  "search_addons e [] s = Inr s"
| "search_addons e (addon # rest) s =
     (case AddonSearch_find e addon (put_message (''Searching for '' @ quoted addon @ ''...'') s) of
        Inl err \<Rightarrow> Inl err
      | Inr (None, s1) \<Rightarrow> search_addons e rest s1
      | Inr (Some online, s1) \<Rightarrow>
          search_addons e rest (put_task \<lparr>current_addon = addon, online_addon = online\<rparr> s1))"


section \<open>Downloader\<close>

text \<open>\<open>ZipFile.extractall\<close> writes every member into the directory, over a file of the
  same name.\<close>

definition extractall :: "(string \<times> string) list \<Rightarrow> (string \<times> string) list \<Rightarrow> (string \<times> string) list" where
  "extractall members dir = fold (\<lambda>(path, bytes). AList.update path bytes) members dir"

text \<open>
  The handler of \<open>_extract_zipfile\<close> is \<open>except (TypeError, BadZipFile) as err: log(err)\<close>.
  The module imports \<open>ZipFile\<close> and \<open>BadZipfile\<close> from \<open>zipfile\<close>, so the name
  \<open>BadZipFile\<close> is not bound in it: when an exception reaches the clause, evaluating the
  tuple raises \<open>NameError\<close>, whatever the exception was, and \<open>log\<close> is not called.
\<close>

definition extract_handler :: "error \<Rightarrow> state \<Rightarrow> (error \<times> state) + state" where
  "extract_handler err s = Inl (NameError, s)"

text \<open>\<open>_extract_zipfile\<close>: \<open>response.content\<close> of \<open>None\<close> raises \<open>AttributeError\<close>, and
  \<open>ZipFile\<close> of bytes that are no archive raises \<open>BadZipFile\<close>.\<close>

definition extract_zipfile :: "env \<Rightarrow> string \<Rightarrow> state \<Rightarrow> (error \<times> state) + state" where
  "extract_zipfile e url s =
     (case http_request e (url, None) s of
        (None, s1) \<Rightarrow> extract_handler AttributeError s1
      | (Some response, s1) \<Rightarrow>
          (case content response of
             None \<Rightarrow> extract_handler BadZipFile s1
           | Some members \<Rightarrow>
               Inr (s1\<lparr>addon_directory := extractall members (addon_directory s1)\<rparr>)))"

text \<open>
  \<open>Downloader.run\<close>: while the task queue holds a task, the first one is taken; when both
  of its entries are truthy, the message is queued, the archive is extracted and the
  config is updated. An error other than \<open>queue.Empty\<close> ends the run.
\<close>

definition download :: "env \<Rightarrow> task \<Rightarrow> state \<Rightarrow> (error \<times> state) + state" where
  "download e t s =
     (if current_addon t \<noteq> []
      then (case extract_zipfile e (get_full_url (online_addon t))
                   (put_message (''Downloading '' @ get_name (online_addon t) @ ''...'') s) of
              Inl err \<Rightarrow> Inl err
            | Inr s1 \<Rightarrow> Inr (update_addon (online_addon t) s1))
      else Inr s)"

function Downloader_run :: "env \<Rightarrow> state \<Rightarrow> (error \<times> state) + state" where
  "Downloader_run e s =
     (case task_queue s of
        [] \<Rightarrow> Inr s
      | t # rest \<Rightarrow>
          (case download e t (s\<lparr>task_queue := rest\<rparr>) of
             Inl err \<Rightarrow> Inl err
           | Inr s1 \<Rightarrow> Downloader_run e s1))"
  by pat_completeness auto
termination
  by (relation "measure (\<lambda>(e, s). length (task_queue s))")
     (auto simp: download_def extract_zipfile_def extract_handler_def http_request_def
        put_message_def update_addon_def encode_def Let_def
      split: if_splits sum.splits prod.splits option.splits outcome.splits)

text \<open>
  \<open>Downloader._update_required\<close>. The class never assigns \<open>self._search\<close>, so the
  search whose \<open>find\<close> the method calls is a parameter, and so is the creation time
  \<open>os.stat\<close> reports for the directory of an addon. \<open>get_date\<close> of \<open>None\<close> raises
  \<open>AttributeError\<close>.
\<close>

definition update_required ::
  "state \<Rightarrow> (string \<Rightarrow> addon option) \<Rightarrow> (string \<Rightarrow> real) \<Rightarrow> string \<Rightarrow> error + bool" where
  "update_required s search_find directory_creation_date addon_name =
     (case get_addon s addon_name of
        Inl err \<Rightarrow> Inl err
      | Inr installed_addon \<Rightarrow>
          (case installed_addon of
             None \<Rightarrow> Inr True
           | Some installed \<Rightarrow>
               (case search_find addon_name of
                  None \<Rightarrow> Inl AttributeError
                | Some online \<Rightarrow>
                    if get_date installed = get_date online then Inr True
                    else if directory_creation_date addon_name < real_of_int (get_date online)
                    then Inr True
                    else Inr False)))"

section \<open>A fresh process\<close>

text \<open>The state when nothing has run: empty queues (\<open>MultiQueue.__init__\<close>), empty caches
  (\<open>AddonSearch.__init__\<close>), no config file, so that \<open>Config.__init__\<close> loads the default
  document, and an empty addon directory.\<close>

definition fresh :: state where
  "fresh =
     \<lparr>task_queue = [], message_queue = [], warning_queue = [],
      no_results_found = Map.empty, retrieved_addons = Map.empty,
      config_dict = default_dict, config_file = None, writes = 0,
      requests = [], errors_log = [], stdout = [], addon_directory = []\<rparr>"

text \<open>An addon \<open>Bar\<close>, released at the given time.\<close>

definition bar :: "int \<Rightarrow> addon" where
  "bar d = \<lparr>get_name = ''Bar'', get_url = ''http://x/bar'',
     get_full_url = ''http://x/bar/files/latest'', get_date = d\<rparr>"

section \<open>Example surroundings\<close>

text \<open>The iteration order of a set that follows the order in which the elements were
  listed, each element once.\<close>

definition listed_order :: "string list \<Rightarrow> string list" where
  "listed_order xs = rev (remdups (rev xs))"

text \<open>\<open>urljoin\<close> of a base that ends in a slash and a path that starts with one.\<close>

definition join_rooted :: "string \<Rightarrow> string \<Rightarrow> string" where
  "join_rooted base path = butlast base @ path"

text \<open>Pages: one without any of the scraped parts, a search page whose first row links
  to an addon, the page that reports no results, the detail page with a release time, and
  an archive.\<close>

definition blank_page :: response where
  "blank_page = \<lparr>no_results_text = False, first_link = None, last_released = NoItem,
     content = None\<rparr>"

definition search_page :: "string \<Rightarrow> string \<Rightarrow> response" where
  "search_page title href = blank_page\<lparr>first_link := Some (title, Some href)\<rparr>"

definition no_results_page :: response where
  "no_results_page = blank_page\<lparr>no_results_text := True\<rparr>"

definition detail_page :: "string \<Rightarrow> response" where
  "detail_page epoch = blank_page\<lparr>last_released := DataEpoch (Some epoch)\<rparr>"

definition archive :: "(string \<times> string) list \<Rightarrow> response" where
  "archive members = blank_page\<lparr>content := Some members\<rparr>"

text \<open>A catalog with one addon: the search for \<open>term\<close> finds the row with the given title
  and link, the detail page behind the link gives the release time, and every other search
  reports no results.\<close>

definition catalog :: "string \<Rightarrow> string \<Rightarrow> string \<Rightarrow> string \<Rightarrow> nat \<Rightarrow> request \<Rightarrow> outcome" where
  "catalog term title href epoch n rq =
     (if rq = (BASE_CURSE_URL, Some term) then Response (search_page title href)
      else if rq = (join_rooted BASE_URL_CURSEFORGE (remove_page href), None)
      then Response (detail_page epoch)
      else if fst rq = BASE_CURSE_URL then Response no_results_page
      else RequestException)"

text \<open>No connection: every request times out.\<close>

definition offline :: env where
  "offline = \<lparr>net = (\<lambda>n rq. Timeout), set_iter = listed_order, urljoin = join_rooted\<rparr>"

text \<open>The catalog lists \<open>Space Stash\<close>, found by the search for the folder name
  \<open>SpaceStashCore\<close>.\<close>

definition space_stash :: env where
  "space_stash =
     \<lparr>net = catalog ''SpaceStashCore'' ''Space Stash'' ''/ws-addons/wildstar/space-stash''
              ''1407542400'',
      set_iter = listed_order, urljoin = join_rooted\<rparr>"

text \<open>The same addon is found by the terms \<open>Space Stash Core\<close> and \<open>SpaceStash\<close>, and the
  request for the folder name itself times out.\<close>

definition space_stash_timeout :: env where
  "space_stash_timeout =
     \<lparr>net = (\<lambda>n rq.
         if rq = (BASE_CURSE_URL, Some ''SpaceStashCore'') then Timeout
         else if rq = (BASE_CURSE_URL, Some ''Space Stash Core'')
         then Response (search_page ''Space Stash'' ''/ws-addons/wildstar/space-stash'')
         else catalog ''SpaceStash'' ''Space Stash'' ''/ws-addons/wildstar/space-stash''
                ''1407542400'' n rq),
      set_iter = listed_order, urljoin = join_rooted\<rparr>"


text \<open>Downloads: the latest file of \<open>Bar\<close> is not an archive, the one of \<open>Foo\<close> is an
  archive with one member.\<close>

definition foo :: addon where
  "foo = \<lparr>get_name = ''Foo'', get_url = ''http://x/foo'',
     get_full_url = ''http://x/foo/files/latest'', get_date = 300\<rparr>"

definition downloads :: env where
  "downloads =
     \<lparr>net = (\<lambda>n rq.
         if rq = (''http://x/bar/files/latest'', None) then Response blank_page
         else if rq = (''http://x/foo/files/latest'', None)
         then Response (archive [(''Foo/toc.xml'', ''<Addon/>'')])
         else RequestException),
      set_iter = listed_order, urljoin = join_rooted\<rparr>"


definition space_stash_online :: addon where
  "space_stash_online = \<lparr>get_name = ''SpaceStash'',
     get_url = ''http://wildstar.curseforge.com/ws-addons/space-stash'',
     get_full_url = ''http://wildstar.curseforge.com/ws-addons/space-stash/files/latest'',
     get_date = 1407542400\<rparr>"


section \<open>Properties\<close>

lemma filter_alnum_strip: "filter alnum (strip s) = filter alnum s"
proof -
  have sp: "isspace c \<Longrightarrow> \<not> alnum c" for c
    by (auto simp: isspace_def alnum_def lower_def upper_def digit_def)
  have dw: "filter alnum (dropWhile isspace xs) = filter alnum xs" for xs
    by (induction xs) (auto dest: sp)
  have "filter alnum (strip s) = rev (filter alnum (dropWhile isspace (rev (dropWhile isspace s))))"
    by (simp add: strip_def rev_filter)
  also have "\<dots> = rev (filter alnum (rev (dropWhile isspace s)))"
    by (simp only: dw)
  also have "\<dots> = filter alnum s"
    by (simp add: rev_filter dw)
  finally show ?thesis .
qed

lemma convert_addon_name_filter: "convert_addon_name name = filter alnum name"
  by (simp add: convert_addon_name_def filter_alnum_strip)

lemmas char_classes = upper_def lower_def digit_def alnum_def lower_or_digit_def


lemma findall_capitalized_Nil:
  "\<not> (\<exists>i. Suc i < length n \<and> upper (n ! i) \<and> lower_or_digit (n ! Suc i))
   \<Longrightarrow> findall_capitalized n = []"
proof (induction n rule: findall_capitalized.induct)
  case 1
  then show ?case by simp
next
  case (2 c cs)
  have no: "\<not> (upper c \<and> takeWhile lower_or_digit cs \<noteq> [])"
  proof
    assume a: "upper c \<and> takeWhile lower_or_digit cs \<noteq> []"
    then obtain d ds where cs: "cs = d # ds" and "lower_or_digit d"
      by (cases cs) (auto split: if_splits)
    with a have "Suc 0 < length (c # cs) \<and> upper ((c # cs) ! 0) \<and> lower_or_digit ((c # cs) ! Suc 0)"
      by simp
    with "2.prems" show False by blast
  qed
  have "\<not> (\<exists>i. Suc i < length cs \<and> upper (cs ! i) \<and> lower_or_digit (cs ! Suc i))"
  proof
    assume "\<exists>i. Suc i < length cs \<and> upper (cs ! i) \<and> lower_or_digit (cs ! Suc i)"
    then obtain i where "Suc i < length cs \<and> upper (cs ! i) \<and> lower_or_digit (cs ! Suc i)"
      by blast
    then have "Suc (Suc i) < length (c # cs) \<and> upper ((c # cs) ! Suc i)
        \<and> lower_or_digit ((c # cs) ! Suc (Suc i))"
      by simp
    with "2.prems" show False by blast
  qed
  with no "2.IH"(2) show ?case by simp
qed

subsection \<open>The derived search terms\<close>

text \<open>
  Claim C7, as the code has it. The capitalized fragments of \<open>SpaceStashCore\<close> joined by
  blanks are \<open>Space Stash Core\<close>. \<open>_remove_last_word\<close> drops the last fragment and joins
  the others with the empty string, so its term for \<open>SpaceStashCore\<close> is \<open>SpaceStash\<close>
  (as the docstring of the method says), without a blank. For a name in which no capital
  letter is followed by a lower-case letter or a digit both derived terms are empty, and
  the loop over the search terms passes over an empty term.
\<close>

theorem derived_search_terms:
  "split_by_camel_case ''SpaceStashCore'' = ''Space Stash Core''
   \<and> remove_last_word ''SpaceStashCore'' = ''SpaceStash''
   \<and> ((\<forall>i. Suc i < length n \<longrightarrow> upper (n ! i) \<longrightarrow> \<not> lower_or_digit (n ! Suc i))
        \<longrightarrow> split_by_camel_case n = [] \<and> remove_last_word n = [])
   \<and> search_terms e n ([] # terms) s = search_terms e n terms s"
proof -
  have a: "split_by_camel_case ''SpaceStashCore'' = ''Space Stash Core''"
    by (simp add: split_by_camel_case_def char_classes)
  have b: "remove_last_word ''SpaceStashCore'' = ''SpaceStash''"
    by (simp add: remove_last_word_def char_classes)
  have c: "split_by_camel_case n = [] \<and> remove_last_word n = []"
    if "\<forall>i. Suc i < length n \<longrightarrow> upper (n ! i) \<longrightarrow> \<not> lower_or_digit (n ! Suc i)"
  proof -
    from that have "findall_capitalized n = []"
      by (intro findall_capitalized_Nil) blast
    then show ?thesis by (simp add: split_by_camel_case_def remove_last_word_def)
  qed
  show ?thesis using a b c by simp
qed

theorem derived_search_terms_witness:
  "split_by_camel_case ''tbGO'' = [] \<and> remove_last_word ''tbGO'' = []"
proof -
  have h: "\<forall>i. Suc i < length ''tbGO'' \<longrightarrow> upper (''tbGO'' ! i)
      \<longrightarrow> \<not> lower_or_digit (''tbGO'' ! Suc i)"
    by (simp add: char_classes nth_Cons' less_Suc_eq)
  from derived_search_terms [of "''tbGO''"] h show ?thesis by blast
qed

text \<open>The term the claim gives for the dropped last fragment is not the one computed.\<close>

theorem remove_last_word_counterexample:
  "remove_last_word ''SpaceStashCore'' \<noteq> ''Space Stash''"
  by (simp add: remove_last_word_def char_classes)

subsection \<open>Construction of an Addon\<close>


lemma int_of_str_1407542400: "int_of_str ''1407542400'' = Some 1407542400"
  by (simp add: int_of_str_def strip_def isspace_def parse_nat_def digit_def digit_val_def)


subsection \<open>The update decision\<close>

text \<open>
  Claim C1. With the stored record \<open>get_addon\<close> finds for the name (\<open>None\<close> when there is
  none) and the entry the search resolves the name to, \<open>_update_required\<close> returns
  \<open>True\<close> when no record is stored, else when the stored and the remote release time are
  equal, else when the creation time of the directory is less than the remote release time,
  and \<open>False\<close> in every other case.
\<close>

theorem update_required_decision:
  assumes "get_addon s addon_name = Inr stored"
    and "search_find addon_name = Some online"
  shows "update_required s search_find directory_creation_date addon_name =
     Inr (stored = None
          \<or> map_option get_date stored = Some (get_date online)
          \<or> directory_creation_date addon_name < real_of_int (get_date online))"
  using assms by (cases stored) (simp_all add: update_required_def)

lemma get_addon_bar: "get_addon (update_addon (bar 200) fresh) ''Bar'' = Inr (Some (bar 200))"
  by (simp add: get_addon_def update_addon_def encode_def fresh_def default_dict_def bar_def
      to_json_def JsonAddon_init_def Addon_init_def convert_addon_name_filter char_classes
      ADDON_DL_SUFFIX_def)

theorem update_required_decision_witness:
  "update_required (update_addon (bar 200) fresh) (\<lambda>n. Some (bar 100)) (\<lambda>n. 150) ''Bar'' = Inr False
   \<and> update_required (update_addon (bar 200) fresh) (\<lambda>n. Some (bar 200)) (\<lambda>n. 250) ''Bar'' = Inr True
   \<and> update_required (update_addon (bar 200) fresh) (\<lambda>n. Some (bar 100)) (\<lambda>n. 99.5) ''Bar'' = Inr True
   \<and> update_required fresh (\<lambda>n. Some (bar 100)) (\<lambda>n. 150) ''Bar'' = Inr True"
proof -
  have n: "get_addon fresh ''Bar'' = Inr None"
    by (simp add: get_addon_def fresh_def default_dict_def JsonAddon_init_def)
  have 1: "update_required (update_addon (bar 200) fresh) (\<lambda>n. Some (bar 100)) (\<lambda>n. 150) ''Bar'' = Inr False"
    using update_required_decision [OF get_addon_bar, of "\<lambda>n. Some (bar 100)" "bar 100" "\<lambda>n. 150"]
    by (simp add: bar_def)
  have 2: "update_required (update_addon (bar 200) fresh) (\<lambda>n. Some (bar 200)) (\<lambda>n. 250) ''Bar'' = Inr True"
    using update_required_decision [OF get_addon_bar, of "\<lambda>n. Some (bar 200)" "bar 200" "\<lambda>n. 250"]
    by (simp add: bar_def)
  have 3: "update_required (update_addon (bar 200) fresh) (\<lambda>n. Some (bar 100)) (\<lambda>n. 99.5) ''Bar'' = Inr True"
    using update_required_decision [OF get_addon_bar, of "\<lambda>n. Some (bar 100)" "bar 100" "\<lambda>n. 99.5"]
    by (simp add: bar_def)
  have 4: "update_required fresh (\<lambda>n. Some (bar 100)) (\<lambda>n. 150) ''Bar'' = Inr True"
    using update_required_decision [OF n, of "\<lambda>n. Some (bar 100)" "bar 100" "\<lambda>n. 150"]
    by simp
  show ?thesis using 1 2 3 4 by simp
qed

subsection \<open>Changing the directory\<close>

text \<open>
  Claim C10. \<open>Config.update_directory\<close> with the empty string leaves the whole state as
  it is: the dictionary, the file and the number of writes. With another string the
  section of the addons is unchanged, the directory read back is the new one, the other keys
  of the \<open>config\<close> section keep their values, nothing but the dictionary and the file
  (written once) differs from the state before.
\<close>

theorem update_directory_frame:
  "update_directory [] s = s
   \<and> (directory \<noteq> [] \<longrightarrow>
        addons_section (config_dict (update_directory directory s)) = addons_section (config_dict s)
      \<and> get_directory (update_directory directory s) = directory
      \<and> (\<forall>k. k \<noteq> ''PATH'' \<longrightarrow>
            map_of (config_section (config_dict (update_directory directory s))) k
            = map_of (config_section (config_dict s)) k)
      \<and> (update_directory directory s)\<lparr>config_dict := config_dict s,
            config_file := config_file s, writes := writes s\<rparr> = s
      \<and> writes (update_directory directory s) = Suc (writes s))"
  by (simp add: update_directory_def encode_def get_directory_def AList.update_conv')

theorem update_directory_frame_witness:
  "addons_section (config_dict (update_directory ''C:/Addons'' (update_addon (bar 200) fresh)))
     = [(''Bar'', to_json (bar 200))]
   \<and> get_directory (update_directory ''C:/Addons'' (update_addon (bar 200) fresh)) = ''C:/Addons''
   \<and> writes (update_directory ''C:/Addons'' (update_addon (bar 200) fresh)) = 2
   \<and> writes (update_directory [] (update_addon (bar 200) fresh)) = 1"
proof -
  have a: "addons_section (config_dict (update_addon (bar 200) fresh)) = [(''Bar'', to_json (bar 200))]"
    by (simp add: update_addon_def encode_def fresh_def default_dict_def bar_def)
  have w: "writes (update_addon (bar 200) fresh) = 1"
    by (simp add: update_addon_def encode_def fresh_def)
  from update_directory_frame [of "update_addon (bar 200) fresh" "''C:/Addons''"] a w
  show ?thesis by simp
qed

subsection \<open>What a search leaves unchanged\<close>

lemma http_request_frame:
  "http_request e rq s = (r, s')
   \<Longrightarrow> no_results_found s' = no_results_found s \<and> task_queue s' = task_queue s"
  by (auto simp: http_request_def Let_def split: outcome.splits)

lemma search_terms_frame:
  "search_terms e n ts s = (r, s')
   \<Longrightarrow> task_queue s' = task_queue s
     \<and> (no_results_found s' = no_results_found s
        \<or> (r = None \<and> no_results_found s' = (no_results_found s)(n \<mapsto> True)))"
  by (induction ts)
     (auto simp: no_results_found_with_def split: if_splits prod.splits dest: http_request_frame)

lemma search_request_frame:
  "search_request e n s = (r, s')
   \<Longrightarrow> task_queue s' = task_queue s
     \<and> (no_results_found s' = no_results_found s
        \<or> (r = None \<and> no_results_found s' = (no_results_found s)(n \<mapsto> True)))"
  unfolding search_request_def by (rule search_terms_frame)

lemma find_addon_date_frame:
  "find_addon_date e url s = Inr (d, s')
   \<Longrightarrow> no_results_found s' = no_results_found s \<and> task_queue s' = task_queue s"
  by (auto simp: find_addon_date_def split: prod.splits option.splits released.splits
      dest: http_request_frame)

lemma find_addon_info_on_frame:
  "find_addon_info_on e page s = Inr (info, s')
   \<Longrightarrow> no_results_found s' = no_results_found s \<and> task_queue s' = task_queue s"
  by (auto simp: find_addon_info_on_def split: prod.splits option.splits sum.splits
      dest: find_addon_date_frame)

lemma not_found_frame:
  "not_found n s = Inr (r, s')
   \<Longrightarrow> r = None \<and> task_queue s' = task_queue s
      \<and> no_results_found s' = (no_results_found s)(n \<mapsto> True)"
  by (auto simp: not_found_def put_warning_def no_results_found_with_def)

lemma search_online_frame:
  assumes "search_online e n s = Inr (r, s')"
  shows "task_queue s' = task_queue s
     \<and> (if r = None then no_results_found s' = (no_results_found s)(n \<mapsto> True)
        else no_results_found s' = no_results_found s)"
proof -
  obtain p s1 where sr: "search_request e n s = (p, s1)"
    by (cases "search_request e n s")
  note f1 = search_request_frame [OF sr]
  show ?thesis
  proof (cases p)
    case None
    with assms sr have "not_found n s1 = Inr (r, s')"
      by (simp add: search_online_def)
    from not_found_frame [OF this] f1 show ?thesis by auto
  next
    case (Some page)
    with f1 have k1: "no_results_found s1 = no_results_found s" "task_queue s1 = task_queue s"
      by auto
    from assms sr Some obtain info s2 where
      fi: "find_addon_info_on e page s1 = Inr (info, s2)"
      by (auto simp: search_online_def split: sum.splits)
    from find_addon_info_on_frame [OF fi] k1
    have k2: "no_results_found s2 = no_results_found s" "task_queue s2 = task_queue s"
      by auto
    from assms sr Some fi
    have "not_found n s2 = Inr (r, s')
       \<or> (\<exists>a nm. r = Some a \<and> s' = s2\<lparr>retrieved_addons := (retrieved_addons s2)(nm \<mapsto> a)\<rparr>)"
      by (auto simp: search_online_def split: prod.splits option.splits if_splits sum.splits)
    then show ?thesis
    proof
      assume "not_found n s2 = Inr (r, s')"
      from not_found_frame [OF this] k2 show ?thesis by auto
    next
      assume "\<exists>a nm. r = Some a \<and> s' = s2\<lparr>retrieved_addons := (retrieved_addons s2)(nm \<mapsto> a)\<rparr>"
      with k2 show ?thesis by auto
    qed
  qed
qed

lemma AddonSearch_find_frame:
  assumes "AddonSearch_find e n s = Inr (r, s')"
  shows "task_queue s' = task_queue s
     \<and> (r = None \<longrightarrow> no_results_found s' n = Some True)
     \<and> (r \<noteq> None \<longrightarrow> no_results_found s' n \<noteq> Some True)
     \<and> (\<forall>m. m \<noteq> n \<longrightarrow> no_results_found s' m = no_results_found s m)
     \<and> (\<forall>m. no_results_found s m = Some True \<longrightarrow> no_results_found s' m = Some True)"
proof (cases "no_results_found s n = Some True")
  case True
  with assms show ?thesis by (simp add: AddonSearch_find_def)
next
  case False
  show ?thesis
  proof (cases "retrieved_addons s n")
    case (Some a)
    with False assms have "r = Some a" "s' = s" by (simp_all add: AddonSearch_find_def)
    with False show ?thesis by simp
  next
    case None
    with False assms have "search_online e n s = Inr (r, s')"
      by (simp add: AddonSearch_find_def)
    from search_online_frame [OF this] False show ?thesis
      by (auto split: if_splits)
  qed
qed

lemma search_addons_negative:
  "search_addons e names s = Inr s' \<Longrightarrow> no_results_found s m = Some True
   \<Longrightarrow> no_results_found s' m = Some True"
proof (induction names arbitrary: s)
  case Nil
  then show ?case by simp
next
  case (Cons a names)
  let ?s0 = "put_message (''Searching for '' @ quoted a @ ''...'') s"
  from Cons.prems(1) obtain r s1 where f: "AddonSearch_find e a ?s0 = Inr (r, s1)"
    by (auto split: sum.splits)
  have m0: "no_results_found ?s0 m = Some True"
    using Cons.prems(2) by (simp add: put_message_def)
  with AddonSearch_find_frame [OF f] have m1: "no_results_found s1 m = Some True"
    by blast
  show ?case
  proof (cases r)
    case None
    with Cons.prems(1) f have "search_addons e names s1 = Inr s'" by simp
    from Cons.IH [OF this m1] show ?thesis .
  next
    case (Some online)
    let ?s2 = "put_task \<lparr>current_addon = a, online_addon = online\<rparr> s1"
    from Some Cons.prems(1) f have "search_addons e names ?s2 = Inr s'" by simp
    moreover from m1 have "no_results_found ?s2 m = Some True" by (simp add: put_task_def)
    ultimately show ?thesis by (rule Cons.IH)
  qed
qed

subsection \<open>The negative cache\<close>

text \<open>
  Claim C5. When the name is in the negative cache, \<open>find\<close> returns \<open>None\<close> and the
  state as it was, so no request is sent. When \<open>find\<close> returns \<open>None\<close>, the name is in the
  negative cache afterwards, and it stays there through the searches of a later loop over
  any names: a later \<open>find\<close> of the name returns \<open>None\<close> with the state, and so the list of
  the requests sent, unchanged.
\<close>

theorem negative_cache_no_request:
  "(no_results_found s n = Some True \<longrightarrow> AddonSearch_find e n s = Inr (None, s))
   \<and> (AddonSearch_find e n s = Inr (None, s1) \<longrightarrow> no_results_found s1 n = Some True)
   \<and> (AddonSearch_find e n s = Inr (None, s1) \<and> search_addons e names s1 = Inr s2
        \<longrightarrow> AddonSearch_find e n s2 = Inr (None, s2) \<and> requests (snd (projr (AddonSearch_find e n s2))) = requests s2)"
proof -
  have a: "AddonSearch_find e n t = Inr (None, t)" if "no_results_found t n = Some True" for t
    using that by (simp add: AddonSearch_find_def)
  have b: "no_results_found s1 n = Some True" if "AddonSearch_find e n s = Inr (None, s1)"
    using AddonSearch_find_frame [OF that] by simp
  have c: "AddonSearch_find e n s2 = Inr (None, s2)"
    if "AddonSearch_find e n s = Inr (None, s1)" "search_addons e names s1 = Inr s2"
    using a search_addons_negative [OF that(2) b [OF that(1)]] by blast
  show ?thesis using a b c by auto
qed

lemmas run_defs = AddonSearch_find_def search_online_def search_request_def
  find_addon_info_on_def find_addon_date_def make_full_url_from_def http_request_def
  results_found_on_def not_found_def put_warning_def put_message_def put_task_def
  no_results_found_with_def listed_order_def join_rooted_def
  split_by_camel_case_def remove_last_word_def char_classes
  BASE_CURSE_URL_def BASE_URL_CURSEFORGE_def quoted_def

lemma offline_Foo:
  "AddonSearch_find offline ''Foo'' fresh =
     Inr (None, fresh\<lparr>requests := [(BASE_CURSE_URL, Some ''Foo'')],
            stdout := [''Connection timed out.''],
            no_results_found := [''Foo'' \<mapsto> True],
            warning_queue := [''Unable to find '' @ quoted ''Foo'' @ '' on Curse.'']\<rparr>)"
  by (simp add: run_defs offline_def fresh_def Let_def)

theorem negative_cache_no_request_witness:
  "no_results_found (snd (projr (AddonSearch_find offline ''Foo'' fresh))) ''Foo'' = Some True
   \<and> AddonSearch_find offline ''Foo'' (snd (projr (AddonSearch_find offline ''Foo'' fresh)))
       = Inr (None, snd (projr (AddonSearch_find offline ''Foo'' fresh)))
   \<and> length (requests (snd (projr (AddonSearch_find offline ''Foo'' fresh)))) = 1"
proof -
  let ?s1 = "fresh\<lparr>requests := [(BASE_CURSE_URL, Some ''Foo'')],
            stdout := [''Connection timed out.''],
            no_results_found := [''Foo'' \<mapsto> True],
            warning_queue := [''Unable to find '' @ quoted ''Foo'' @ '' on Curse.'']\<rparr>"
  have r: "search_addons offline [] ?s1 = Inr ?s1" by simp
  from negative_cache_no_request [of fresh "''Foo''" offline ?s1 "[]" ?s1] offline_Foo r
  show ?thesis by simp
qed

subsection \<open>Runs against the example catalogs\<close>

lemmas page_defs = catalog_def search_page_def detail_page_def no_results_page_def
  blank_page_def archive_def





subsection \<open>What the search worker enqueues\<close>







subsection \<open>Persisting and reloading the store\<close>











subsection \<open>The positive cache\<close>

lemma find_SpaceStashCore:
  "no_results_found s ''SpaceStashCore'' \<noteq> Some True
   \<Longrightarrow> retrieved_addons s ''SpaceStashCore'' = None
   \<Longrightarrow> AddonSearch_find space_stash ''SpaceStashCore'' s =
     Inr (Some space_stash_online,
       s\<lparr>requests := requests s @ [(BASE_CURSE_URL, Some ''SpaceStashCore''),
               (''http://wildstar.curseforge.com/ws-addons/space-stash'', None)],
         retrieved_addons := (retrieved_addons s)(''SpaceStash'' \<mapsto> space_stash_online)\<rparr>)"
  by (simp add: run_defs space_stash_def page_defs Let_def Addon_init_def
      convert_addon_name_filter int_of_str_1407542400 ADDON_DL_SUFFIX_def space_stash_online_def)

text \<open>
  Claim C6 at the folder name \<open>SpaceStashCore\<close>, which the catalog resolves to the entry
  \<open>SpaceStash\<close>. \<open>_search_online\<close> stores the entry under the name read from the page,
  and \<open>find\<close> looks the folder name up: after the first \<open>find\<close> the cache has the entry
  under \<open>SpaceStash\<close> and nothing under \<open>SpaceStashCore\<close>, and the second \<open>find\<close> of the
  same name sends the same two requests again.
\<close>

theorem second_find_searches_again:
  "AddonSearch_find space_stash ''SpaceStashCore'' fresh =
     Inr (Some space_stash_online,
       fresh\<lparr>requests := [(BASE_CURSE_URL, Some ''SpaceStashCore''),
               (''http://wildstar.curseforge.com/ws-addons/space-stash'', None)],
         retrieved_addons := [''SpaceStash'' \<mapsto> space_stash_online]\<rparr>)
   \<and> AddonSearch_find space_stash ''SpaceStashCore''
       (fresh\<lparr>requests := [(BASE_CURSE_URL, Some ''SpaceStashCore''),
               (''http://wildstar.curseforge.com/ws-addons/space-stash'', None)],
         retrieved_addons := [''SpaceStash'' \<mapsto> space_stash_online]\<rparr>) =
     Inr (Some space_stash_online,
       fresh\<lparr>requests := [(BASE_CURSE_URL, Some ''SpaceStashCore''),
               (''http://wildstar.curseforge.com/ws-addons/space-stash'', None),
               (BASE_CURSE_URL, Some ''SpaceStashCore''),
               (''http://wildstar.curseforge.com/ws-addons/space-stash'', None)],
         retrieved_addons := [''SpaceStash'' \<mapsto> space_stash_online]\<rparr>)"
proof -
  have 1: "no_results_found fresh ''SpaceStashCore'' \<noteq> Some True"
    "retrieved_addons fresh ''SpaceStashCore'' = None"
    by (simp_all add: fresh_def)
  let ?s1 = "fresh\<lparr>requests := [(BASE_CURSE_URL, Some ''SpaceStashCore''),
               (''http://wildstar.curseforge.com/ws-addons/space-stash'', None)],
         retrieved_addons := [''SpaceStash'' \<mapsto> space_stash_online]\<rparr>"
  have 2: "no_results_found ?s1 ''SpaceStashCore'' \<noteq> Some True"
    "retrieved_addons ?s1 ''SpaceStashCore'' = None"
    by (simp_all add: fresh_def)
  from find_SpaceStashCore [OF 1] find_SpaceStashCore [OF 2]
  show ?thesis by (simp add: fresh_def)
qed

subsection \<open>The search terms tried\<close>

lemma search_terms_requests:
  "length (requests (snd (search_terms e n ts s))) \<le> Suc (length (requests s))"
  by (induction ts)
     (auto simp: http_request_def no_results_found_with_def Let_def
           split: prod.splits outcome.splits)

text \<open>
  Claim C4. Both branches behind the first non-empty term of \<open>_search_request\<close> return,
  so one call sends at most one request, whatever the order of the terms. With the terms in
  the order of the claim and a time-out of the request for the folder name, the term
  \<open>Space Stash Core\<close>, which the catalog would have answered with a result, is not tried:
  the only request sent is the first one, the name goes to the negative cache and \<open>find\<close>
  returns \<open>None\<close>.
\<close>

theorem search_request_tries_one_term:
  "length (requests (snd (search_request e n s))) \<le> Suc (length (requests s))
   \<and> net space_stash_timeout 1 (BASE_CURSE_URL, Some (split_by_camel_case ''SpaceStashCore''))
       = Response (search_page ''Space Stash'' ''/ws-addons/wildstar/space-stash'')
   \<and> AddonSearch_find space_stash_timeout ''SpaceStashCore'' fresh =
       Inr (None, fresh\<lparr>requests := [(BASE_CURSE_URL, Some ''SpaceStashCore'')],
              stdout := [''Connection timed out.''],
              no_results_found := [''SpaceStashCore'' \<mapsto> True],
              warning_queue := [''Unable to find '' @ quoted ''SpaceStashCore'' @ '' on Curse.'']\<rparr>)"
proof -
  have a: "length (requests (snd (search_request e n s))) \<le> Suc (length (requests s))"
    unfolding search_request_def by (rule search_terms_requests)
  have b: "net space_stash_timeout 1 (BASE_CURSE_URL, Some (split_by_camel_case ''SpaceStashCore''))
       = Response (search_page ''Space Stash'' ''/ws-addons/wildstar/space-stash'')"
    by (simp add: space_stash_timeout_def split_by_camel_case_def char_classes BASE_CURSE_URL_def)
  have c: "AddonSearch_find space_stash_timeout ''SpaceStashCore'' fresh =
       Inr (None, fresh\<lparr>requests := [(BASE_CURSE_URL, Some ''SpaceStashCore'')],
              stdout := [''Connection timed out.''],
              no_results_found := [''SpaceStashCore'' \<mapsto> True],
              warning_queue := [''Unable to find '' @ quoted ''SpaceStashCore'' @ '' on Curse.'']\<rparr>)"
    by (simp add: run_defs space_stash_timeout_def fresh_def Let_def)
  show ?thesis using a b c by simp
qed

subsection \<open>An archive that cannot be read\<close>

text \<open>
  Claim C3 at a queue of two tasks, the first with a download that is no archive. The
  handler of \<open>_extract_zipfile\<close> names \<open>BadZipFile\<close>, which the module does not bind, so
  \<open>NameError\<close> leaves \<open>Downloader.run\<close>: nothing is written to \<open>errors.log\<close>, the config
  is as before (not written), and the task of \<open>Foo\<close> stays on the queue, not worked on.
\<close>

theorem Downloader_run_aborts_on_bad_archive:
  "Downloader_run downloads
     (put_task \<lparr>current_addon = ''Foo'', online_addon = foo\<rparr>
       (put_task \<lparr>current_addon = ''Bar'', online_addon = bar 200\<rparr> fresh)) =
   Inl (NameError,
     fresh\<lparr>task_queue := [\<lparr>current_addon = ''Foo'', online_addon = foo\<rparr>],
       message_queue := [''Downloading Bar...''],
       requests := [(''http://x/bar/files/latest'', None)]\<rparr>)"
  by (simp add: download_def extract_zipfile_def extract_handler_def http_request_def
      downloads_def put_task_def put_message_def fresh_def bar_def foo_def blank_page_def Let_def)

end
